theory Spec2Isabelle
  imports Complex_Main
begin

section \<open>D2Q9 lattice Boltzmann solver with an undulating fin\<close>

text \<open>
  A shallow embedding of \<^verbatim>\<open>scripts/undulating_fin_2d.py\<close>. The numpy arrays of shape
  \<^verbatim>\<open>(nz, nx)\<close> are functions from a node \<open>(iz, ix)\<close> to a value, the population array of
  shape \<^verbatim>\<open>(9, nz, nx)\<close> is a function from the direction index to such a field, and a
  vectorised numpy expression is the same expression at every node. Finite float64
  values are real numbers and the arithmetic is exact: rounding and overflow are not
  part of the model. The one operation of the program whose result can be non-finite
  in exact arithmetic, the division by the density, returns an optional value.
\<close>

subsection \<open>Parameters\<close>

definition nx :: nat where "nx = 280"
definition nz :: nat where "nz = 120"
definition omega :: real where "omega = 17 / 10"

definition H_fin :: real where "H_fin = 18"
definition A_fin :: real where "A_fin = 8"
definition lambda_fin :: real where "lambda_fin = real nx / (3 / 2)"
definition f_wave :: real where "f_wave = 1 / 1000"
definition z_root :: real where "z_root = 8"
definition x_start :: nat where "x_start = 30"
definition x_end :: nat where "x_end = nx - 30"

subsection \<open>Direction table\<close>

type_synonym node = "nat \<times> nat"
type_synonym field = "node \<Rightarrow> real"
type_synonym populations = "nat \<Rightarrow> field"

definition c :: "nat \<Rightarrow> int \<times> int" where
  "c i = [(0, 0), (1, 0), (0, 1), (-1, 0), (0, -1), (1, 1), (-1, 1), (-1, -1), (1, -1)] ! i"

definition w :: "nat \<Rightarrow> real" where
  "w i = [4/9, 1/9, 1/9, 1/9, 1/9, 1/36, 1/36, 1/36, 1/36] ! i"

definition opposite :: "nat \<Rightarrow> nat" where
  "opposite i = [0, 3, 4, 1, 2, 7, 8, 5, 6] ! i"

text \<open>The nine directions, \<^verbatim>\<open>range(9)\<close>.\<close>

definition directions :: "nat list" where
  "directions = [0, 1, 2, 3, 4, 5, 6, 7, 8]"

text \<open>\<^verbatim>\<open>np.sum(g, axis=0)\<close> at one node: the sum over the nine directions.\<close>

definition sum9 :: "(nat \<Rightarrow> real) \<Rightarrow> real" where
  "sum9 g = sum_list (map g directions)"

subsection \<open>Equilibrium\<close>

definition cu :: "field \<Rightarrow> field \<Rightarrow> populations" where
  "cu ux uz i n = 3 * (real_of_int (fst (c i)) * ux n + real_of_int (snd (c i)) * uz n)"

definition usq :: "field \<Rightarrow> field \<Rightarrow> field" where
  "usq ux uz n = (ux n)\<^sup>2 + (uz n)\<^sup>2"

definition equilibrium :: "field \<Rightarrow> field \<Rightarrow> field \<Rightarrow> populations" where
  "equilibrium rho ux uz i n =
     w i * rho n * (1 + cu ux uz i n + (1 / 2) * (cu ux uz i n)\<^sup>2 - (3 / 2) * usq ux uz n)"

subsection \<open>Static walls\<close>

text \<open>Row \<open>0\<close> and row \<open>nz - 1\<close> (Python's row \<open>-1\<close>) are the channel walls.\<close>

definition solid_static :: "node \<Rightarrow> bool" where
  "solid_static n = (fst n = 0 \<or> fst n = nz - 1)"

subsection \<open>Fin mask generation\<close>

definition xs_local :: "nat list" where
  "xs_local = [x_start..<x_end]"

definition phase :: "real \<Rightarrow> nat \<Rightarrow> real" where
  "phase t idx =
     2 * pi * ((real (xs_local ! idx) - real x_start) / lambda_fin - f_wave * t)"

definition z_center :: "real \<Rightarrow> nat \<Rightarrow> real" where
  "z_center t idx = z_root + (1 / 2) * H_fin + A_fin * sin (phase t idx)"

text \<open>
  The slope of the centerline: central differences inside, one-sided differences at the
  two ends. The three slice assignments are made in this order, so the last one decides
  where they overlap.
\<close>

definition dzdx :: "real \<Rightarrow> nat \<Rightarrow> real" where
  "dzdx t idx =
     (let m = length xs_local in
      if idx = m - 1 then z_center t (m - 1) - z_center t (m - 2)
      else if idx = 0 then z_center t 1 - z_center t 0
      else (1 / 2) * (z_center t (idx + 1) - z_center t (idx - 1)))"

definition n_samples :: nat where
  "n_samples = nat \<lfloor>max 6 (2 * H_fin)\<rfloor>"

text \<open>\<^verbatim>\<open>np.linspace(-0.5 * H_fin, 0.5 * H_fin, n_samples)\<close>.\<close>

definition s_vals :: "real list" where
  "s_vals =
     map (\<lambda>k. - (1 / 2) * H_fin + real k * ((1 / 2) * H_fin - (- (1 / 2) * H_fin)) / real (n_samples - 1))
       [0..<n_samples]"

definition hypot :: "real \<Rightarrow> real \<Rightarrow> real" where
  "hypot a b = sqrt (a\<^sup>2 + b\<^sup>2)"

definition norm_t :: "real \<Rightarrow> nat \<Rightarrow> real" where
  "norm_t t idx = hypot 1 (dzdx t idx)"

text \<open>The unit normal \<open>(nx_hat, nz_hat)\<close> at a centerline point, with the source's two branches.\<close>

definition normal_hat :: "real \<Rightarrow> nat \<Rightarrow> real \<times> real" where
  "normal_hat t idx =
     (let tx = 1; tz = dzdx t idx in
      if norm_t t idx = 0 then (0, 1)
      else (tz / norm_t t idx, - (tx / norm_t t idx)))"

text \<open>Python's \<^verbatim>\<open>round\<close> on a float: to the nearest integer, a tie to the even one.\<close>

definition py_round :: "real \<Rightarrow> int" where
  "py_round x =
     (let fl = \<lfloor>x\<rfloor>; d = x - of_int fl in
      if d < 1 / 2 then fl
      else if 1 / 2 < d then fl + 1
      else if even fl then fl else fl + 1)"

text \<open>The grid node \<open>(iz, ix)\<close> that one sample \<open>s\<close> of the strip at \<open>idx\<close> rounds to.\<close>

definition sample_node :: "real \<Rightarrow> nat \<Rightarrow> real \<Rightarrow> int \<times> int" where
  "sample_node t idx s =
     (let x_c = real (xs_local ! idx);
          z_c = z_center t idx;
          xk = x_c + fst (normal_hat t idx) * s;
          zk = z_c + snd (normal_hat t idx) * s
      in (py_round zk, py_round xk))"

text \<open>The guard \<^verbatim>\<open>0 < ix < nx-1 and 1 <= iz < nz-1\<close>.\<close>

definition inside :: "int \<times> int \<Rightarrow> bool" where
  "inside p = (0 < snd p \<and> snd p < int nx - 1 \<and> 1 \<le> fst p \<and> fst p < int nz - 1)"

definition marked :: "real \<Rightarrow> (int \<times> int) list" where
  "marked t =
     filter inside
       (concat (map (\<lambda>idx. map (sample_node t idx) s_vals) [0..<length xs_local]))"

text \<open>
  The mask is cleared and then set at the marked nodes, so it is a function of \<open>t\<close>
  alone.
\<close>

definition update_fin_mask :: "real \<Rightarrow> node \<Rightarrow> bool" where
  "update_fin_mask t n = ((int (fst n), int (snd n)) \<in> set (marked t))"

subsection \<open>One step: collision, streaming, bounce-back, recovery\<close>

definition collide :: "populations \<Rightarrow> field \<Rightarrow> field \<Rightarrow> field \<Rightarrow> populations" where
  "collide f rho ux uz i n = (1 - omega) * f i n + omega * equilibrium rho ux uz i n"

text \<open>
  \<^verbatim>\<open>np.roll(a, shift, axis)\<close>: the value at index \<open>j\<close> of the result is the value at
  \<open>(j - shift) mod len\<close> of the argument.
\<close>

definition roll_x :: "int \<Rightarrow> field \<Rightarrow> field" where
  "roll_x shift a n = a (fst n, nat ((int (snd n) - shift) mod int nx))"

definition roll_z :: "int \<Rightarrow> field \<Rightarrow> field" where
  "roll_z shift a n = a (nat ((int (fst n) - shift) mod int nz), snd n)"

definition stream_step :: "nat \<Rightarrow> populations \<Rightarrow> populations" where
  "stream_step i f =
     (let ci_x = fst (c i); ci_z = snd (c i) in f(i := roll_z ci_z (roll_x ci_x (f i))))"

definition stream :: "populations \<Rightarrow> populations" where
  "stream f = fold stream_step directions f"

text \<open>
  One pass of the bounce-back loop body: the two copies are taken first, then written
  to the solid nodes of \<open>f[i]\<close> and of \<open>f[ip]\<close>, in this order.
\<close>

definition bounce_step :: "(node \<Rightarrow> bool) \<Rightarrow> nat \<Rightarrow> populations \<Rightarrow> populations" where
  "bounce_step solid i f =
     (let ip = opposite i;
          fi = f i;
          fip = f ip;
          f1 = f(i := (\<lambda>n. if solid n then fip n else f i n));
          f2 = f1(ip := (\<lambda>n. if solid n then fi n else f1 ip n))
      in f2)"

definition bounce_back :: "(node \<Rightarrow> bool) \<Rightarrow> populations \<Rightarrow> populations" where
  "bounce_back solid f = fold (bounce_step solid) directions f"

text \<open>
  The division of two finite values in exact arithmetic. For a zero divisor numpy
  returns an infinity or a NaN and raises nothing; \<open>None\<close> stands for such a non-finite
  value. A float64 quotient can also be non-finite by overflow, and a float64 divisor
  is a rounded sum; neither is modelled.
\<close>

definition fdiv :: "real \<Rightarrow> real \<Rightarrow> real option" where
  "fdiv a b = (if b = 0 then None else Some (a / b))"

definition momentum_x :: "populations \<Rightarrow> field" where
  "momentum_x f n = sum9 (\<lambda>i. real_of_int (fst (c i)) * f i n)"

definition momentum_z :: "populations \<Rightarrow> field" where
  "momentum_z f n = sum9 (\<lambda>i. real_of_int (snd (c i)) * f i n)"

definition density :: "populations \<Rightarrow> field" where
  "density f n = sum9 (\<lambda>i. f i n)"

record result =
  f_out :: populations
  rho_out :: field
  ux_out :: "node \<Rightarrow> real option"
  uz_out :: "node \<Rightarrow> real option"
  solid_out :: "node \<Rightarrow> bool"

definition combined_solid :: "real \<Rightarrow> node \<Rightarrow> bool" where
  "combined_solid t n = (solid_static n \<or> update_fin_mask t n)"

definition collide_and_stream ::
  "populations \<Rightarrow> field \<Rightarrow> field \<Rightarrow> field \<Rightarrow> real \<Rightarrow> result" where
  "collide_and_stream f rho ux uz t =
     (let solid = combined_solid t;
          f1 = collide f rho ux uz;
          f2 = stream f1;
          f3 = bounce_back solid f2;
          rho' = density f3;
          ux' = (\<lambda>n. if solid n then Some 0 else fdiv (momentum_x f3 n) (rho' n));
          uz' = (\<lambda>n. if solid n then Some 0 else fdiv (momentum_z f3 n) (rho' n))
      in \<lparr>f_out = f3, rho_out = rho', ux_out = ux', uz_out = uz', solid_out = solid\<rparr>)"

text \<open>The grid and the mass on it.\<close>

definition in_grid :: "node \<Rightarrow> bool" where
  "in_grid n = (fst n < nz \<and> snd n < nx)"

definition total_mass :: "populations \<Rightarrow> real" where
  "total_mass f = (\<Sum>iz<nz. \<Sum>ix<nx. density f (iz, ix))"

definition plane_sum :: "field \<Rightarrow> real" where
  "plane_sum a = (\<Sum>iz<nz. \<Sum>ix<nx. a (iz, ix))"

subsection \<open>Initial state and other concrete states\<close>

text \<open>The fields at start-up: unit density, fluid at rest, populations at equilibrium.\<close>

definition rho_init :: field where "rho_init = (\<lambda>_. 1)"
definition ux_init :: field where "ux_init = (\<lambda>_. 0)"
definition uz_init :: field where "uz_init = (\<lambda>_. 0)"

definition f_init :: populations where
  "f_init = equilibrium rho_init ux_init uz_init"

text \<open>A uniform flow along \<open>x\<close> at equilibrium.\<close>

definition drift_ux :: field where "drift_ux = (\<lambda>_. 1 / 10)"

definition drift_pops :: populations where
  "drift_pops = equilibrium rho_init drift_ux uz_init"

text \<open>A fluid at rest with one node of double density.\<close>

definition bump_rho :: field where
  "bump_rho n = (if n = (5, 5) then 2 else 1)"

definition bump_pops :: populations where
  "bump_pops = equilibrium bump_rho ux_init uz_init"

text \<open>An empty lattice.\<close>

definition zero_pops :: populations where "zero_pops = (\<lambda>_ _. 0)"
definition zero_rho :: field where "zero_rho = (\<lambda>_. 0)"

text \<open>A lattice at rest whose populations and density are negative.\<close>

definition neg_rho :: field where "neg_rho = (\<lambda>_. - 1)"

definition neg_pops :: populations where
  "neg_pops = equilibrium neg_rho ux_init uz_init"

subsection \<open>Facts about the direction table\<close>

lemma sum9_expand:
  "sum9 g = g 0 + g 1 + g 2 + g 3 + g 4 + g 5 + g 6 + g 7 + g 8"
  by (simp add: sum9_def directions_def)

lemma c_simps:
  "c 0 = (0, 0)" "c 1 = (1, 0)" "c 2 = (0, 1)" "c 3 = (-1, 0)" "c 4 = (0, -1)"
  "c 5 = (1, 1)" "c 6 = (-1, 1)" "c 7 = (-1, -1)" "c 8 = (1, -1)" "c (Suc 0) = (1, 0)"
  by (simp_all add: c_def)

lemma w_simps:
  "w 0 = 4/9" "w 1 = 1/9" "w 2 = 1/9" "w 3 = 1/9" "w 4 = 1/9"
  "w 5 = 1/36" "w 6 = 1/36" "w 7 = 1/36" "w 8 = 1/36" "w (Suc 0) = 1/9"
  by (simp_all add: w_def)

lemma opposite_simps:
  "opposite 0 = 0" "opposite 1 = 3" "opposite 2 = 4" "opposite 3 = 1" "opposite 4 = 2"
  "opposite 5 = 7" "opposite 6 = 8" "opposite 7 = 5" "opposite 8 = 6" "opposite (Suc 0) = 3"
  by (simp_all add: opposite_def)

subsection \<open>Moments of the equilibrium\<close>

lemma equilibrium_mass: "sum9 (\<lambda>i. equilibrium rho ux uz i n) = rho n"
  by (simp add: sum9_expand equilibrium_def cu_def usq_def c_simps w_simps
      power2_eq_square algebra_simps)

lemma equilibrium_momentum_x:
  "sum9 (\<lambda>i. real_of_int (fst (c i)) * equilibrium rho ux uz i n) = rho n * ux n"
  by (simp add: sum9_expand equilibrium_def cu_def usq_def c_simps w_simps
      power2_eq_square algebra_simps)

lemma equilibrium_momentum_z:
  "sum9 (\<lambda>i. real_of_int (snd (c i)) * equilibrium rho ux uz i n) = rho n * uz n"
  by (simp add: sum9_expand equilibrium_def cu_def usq_def c_simps w_simps
      power2_eq_square algebra_simps)

subsection \<open>Bounce-back loop\<close>

lemma bounce_step_apply:
  "bounce_step solid i f k n =
     (if k = opposite i then (if solid n then f i n else f k n)
      else if k = i then (if solid n then f (opposite i) n else f k n)
      else f k n)"
  by (simp add: bounce_step_def Let_def)

lemma bounce_0: "bounce_step solid 0 f = f"
  by (rule ext, rule ext) (simp add: bounce_step_apply opposite_simps)

lemma bounce_axis: "fold (bounce_step solid) [1, 2, 3, 4] f = f"
  by (rule ext, rule ext) (simp add: bounce_step_apply opposite_simps)

lemma bounce_diag: "fold (bounce_step solid) [5, 6, 7, 8] f = f"
  by (rule ext, rule ext) (simp add: bounce_step_apply opposite_simps)

lemma bounce_back_id: "bounce_back solid f = f"
proof -
  have "bounce_back solid f =
      fold (bounce_step solid) [5, 6, 7, 8]
        (fold (bounce_step solid) [1, 2, 3, 4] (bounce_step solid 0 f))"
    by (simp add: bounce_back_def directions_def)
  then show ?thesis
    by (simp only: bounce_0 bounce_axis bounce_diag)
qed

subsection \<open>Collision and streaming\<close>

lemma stream_step_apply:
  "stream_step i f k =
     (if k = i then roll_z (snd (c i)) (roll_x (fst (c i)) (f i)) else f k)"
  by (simp add: stream_step_def Let_def)

lemma stream_apply:
  "stream f k = (if k < 9 then roll_z (snd (c k)) (roll_x (fst (c k)) (f k)) else f k)"
proof -
  consider "k = 0" | "k = 1" | "k = 2" | "k = 3" | "k = 4" | "k = 5" | "k = 6" | "k = 7"
    | "k = 8" | "9 \<le> k"
    by linarith
  then show ?thesis
    by cases (simp_all add: stream_def directions_def stream_step_apply)
qed

lemma sum9_add: "sum9 (\<lambda>i. g i + h i) = sum9 g + sum9 h"
  by (simp add: sum9_expand)

lemma sum9_cmul: "sum9 (\<lambda>i. a * g i) = a * sum9 g"
  by (simp add: sum9_expand algebra_simps)

lemma density_collide:
  "density (collide f rho ux uz) n = (1 - omega) * density f n + omega * rho n"
  by (simp add: density_def collide_def sum9_add sum9_cmul equilibrium_mass)

lemma roll_bij:
  assumes "0 < len"
  shows "bij_betw (\<lambda>j. nat ((int j - k) mod int len)) {..<len} {..<len}"
proof (rule bij_betw_byWitness[where f' = "\<lambda>j. nat ((int j + k) mod int len)"])
  show "\<forall>a\<in>{..<len}. nat ((int (nat ((int a - k) mod int len)) + k) mod int len) = a"
    using assms by (simp add: mod_add_left_eq)
  show "\<forall>a'\<in>{..<len}. nat ((int (nat ((int a' + k) mod int len)) - k) mod int len) = a'"
    using assms by (simp add: mod_diff_left_eq)
  show "(\<lambda>j. nat ((int j - k) mod int len)) ` {..<len} \<subseteq> {..<len}"
    using assms by (auto simp: nat_less_iff)
  show "(\<lambda>j. nat ((int j + k) mod int len)) ` {..<len} \<subseteq> {..<len}"
    using assms by (auto simp: nat_less_iff)
qed

lemma sum_roll:
  assumes "0 < len"
  shows "(\<Sum>j<len. h (nat ((int j - k) mod int len))) = (\<Sum>j<len. h j)"
  by (rule sum.reindex_bij_betw[OF roll_bij[OF assms]])

lemma plane_sum_roll_x: "plane_sum (roll_x k a) = plane_sum a"
proof -
  have pos: "0 < nx" by (simp add: nx_def)
  have "(\<Sum>ix<nx. a (iz, nat ((int ix - k) mod int nx))) = (\<Sum>ix<nx. a (iz, ix))" for iz
    by (rule sum_roll[OF pos, where h = "\<lambda>j. a (iz, j)"])
  then show ?thesis
    by (simp add: plane_sum_def roll_x_def)
qed

lemma plane_sum_roll_z: "plane_sum (roll_z k a) = plane_sum a"
proof -
  have pos: "0 < nz" by (simp add: nz_def)
  have "plane_sum (roll_z k a) = (\<Sum>iz<nz. (\<lambda>j. \<Sum>ix<nx. a (j, ix)) (nat ((int iz - k) mod int nz)))"
    by (simp add: plane_sum_def roll_z_def)
  also have "\<dots> = (\<Sum>iz<nz. \<Sum>ix<nx. a (iz, ix))"
    by (rule sum_roll[OF pos])
  finally show ?thesis by (simp add: plane_sum_def)
qed

lemma total_mass_planes: "total_mass f = sum9 (\<lambda>i. plane_sum (f i))"
  by (simp add: total_mass_def density_def plane_sum_def sum9_expand sum.distrib)

lemma total_mass_stream: "total_mass (stream f) = total_mass f"
  by (simp add: total_mass_planes sum9_expand stream_apply plane_sum_roll_x plane_sum_roll_z)

lemma total_mass_cong:
  assumes "\<And>n. in_grid n \<Longrightarrow> density f n = density g n"
  shows "total_mass f = total_mass g"
  unfolding total_mass_def
  by (intro sum.cong refl assms) (simp add: in_grid_def)

subsection \<open>Fin geometry\<close>

lemma inside_marked: "p \<in> set (marked t) \<Longrightarrow> inside p"
  by (simp add: marked_def)

lemma fin_mask_interior:
  assumes "update_fin_mask t n"
  shows "1 \<le> fst n \<and> fst n \<le> nz - 2 \<and> 1 \<le> snd n \<and> snd n \<le> nx - 2"
proof -
  have "inside (int (fst n), int (snd n))"
    using assms by (simp add: update_fin_mask_def inside_marked)
  then show ?thesis
    by (simp add: inside_def nx_def nz_def)
qed

lemma phase_shift: "phase (t + 1 / f_wave) idx = phase t idx - 2 * pi"
  by (simp add: phase_def f_wave_def algebra_simps)

lemma sin_shift: "sin (x - 2 * pi) = sin (x::real)"
  by (simp add: sin_diff)

lemma z_center_periodic: "z_center (t + 1 / f_wave) idx = z_center t idx"
  by (simp only: z_center_def phase_shift sin_shift)

lemma dzdx_periodic: "dzdx (t + 1 / f_wave) idx = dzdx t idx"
  by (simp only: dzdx_def z_center_periodic)

lemma norm_t_periodic: "norm_t (t + 1 / f_wave) idx = norm_t t idx"
  by (simp only: norm_t_def dzdx_periodic)

lemma normal_hat_periodic: "normal_hat (t + 1 / f_wave) idx = normal_hat t idx"
  by (simp only: normal_hat_def dzdx_periodic norm_t_periodic)

lemma sample_node_periodic: "sample_node (t + 1 / f_wave) idx = sample_node t idx"
  by (rule ext) (simp only: sample_node_def z_center_periodic normal_hat_periodic)

lemma marked_periodic: "marked (t + 1 / f_wave) = marked t"
  by (simp only: marked_def sample_node_periodic)

lemma update_fin_mask_periodic: "update_fin_mask (t + 1 / f_wave) = update_fin_mask t"
  by (rule ext) (simp only: update_fin_mask_def marked_periodic)

lemma hypot_one_ge: "1 \<le> hypot 1 b"
proof -
  have "sqrt 1 \<le> sqrt (1\<^sup>2 + b\<^sup>2)"
    by (rule real_sqrt_le_mono) simp
  then show ?thesis by (simp add: hypot_def)
qed

lemma norm_t_ge_one: "1 \<le> norm_t t idx"
  by (simp add: norm_t_def hypot_one_ge)

lemma normal_hat_regular:
  "normal_hat t idx = (dzdx t idx / norm_t t idx, - (1 / norm_t t idx))"
  using norm_t_ge_one[of t idx] by (simp add: normal_hat_def Let_def)

lemma abs_le_hypot: "\<bar>b\<bar> \<le> hypot 1 b"
proof -
  have "sqrt (b\<^sup>2) \<le> sqrt (1\<^sup>2 + b\<^sup>2)"
    by (rule real_sqrt_le_mono) simp
  then show ?thesis by (simp add: hypot_def)
qed

lemma nx_hat_bound: "\<bar>fst (normal_hat t idx)\<bar> \<le> 1"
proof -
  have pos: "0 < norm_t t idx" using norm_t_ge_one[of t idx] by linarith
  have "\<bar>dzdx t idx\<bar> \<le> norm_t t idx" by (simp add: norm_t_def abs_le_hypot)
  then have "\<bar>dzdx t idx\<bar> / norm_t t idx \<le> 1" using pos by (simp add: divide_le_eq)
  then show ?thesis using pos by (simp add: normal_hat_regular)
qed

lemma length_xs_local: "length xs_local = 220"
  by (simp add: xs_local_def x_start_def x_end_def nx_def)

lemma xs_local_nth:
  assumes "idx < 220"
  shows "xs_local ! idx = 30 + idx"
proof -
  have "x_start + idx < x_end"
    using assms by (simp add: x_start_def x_end_def nx_def)
  then have "xs_local ! idx = x_start + idx"
    by (simp only: xs_local_def nth_upt)
  then show ?thesis by (simp add: x_start_def)
qed

lemma n_samples_val: "n_samples = 36"
  by (simp add: n_samples_def H_fin_def)

lemma s_vals_bound:
  assumes "s \<in> set s_vals"
  shows "\<bar>s\<bar> \<le> 9"
proof -
  from assms obtain k where k: "k < 36" and s: "s = - 9 + real k * 18 / 35"
    by (auto simp: s_vals_def n_samples_val H_fin_def)
  have "real k \<le> 35" using k by simp
  then show ?thesis unfolding s by (simp add: abs_le_iff) 
qed

lemma py_round_ge_floor: "\<lfloor>x\<rfloor> \<le> py_round x"
  by (simp add: py_round_def Let_def)

lemma py_round_ge:
  assumes "of_int m \<le> x"
  shows "m \<le> py_round x"
proof -
  have "m \<le> \<lfloor>x\<rfloor>" using assms by (simp add: le_floor_iff)
  then show ?thesis using py_round_ge_floor[of x] by linarith
qed

lemma py_round_of_int: "py_round (of_int m) = m"
  by (simp add: py_round_def Let_def)


lemma sample_col_ge:
  assumes "idx < length xs_local" and "s \<in> set s_vals"
  shows "21 \<le> snd (sample_node t idx s)"
proof -
  have idx: "idx < 220" using assms(1) by (simp add: length_xs_local)
  have "\<bar>fst (normal_hat t idx) * s\<bar> \<le> 1 * 9"
    unfolding abs_mult
    by (rule mult_mono) (use nx_hat_bound s_vals_bound[OF assms(2)] in simp_all)
  then have "of_int 21 \<le> real (xs_local ! idx) + fst (normal_hat t idx) * s"
    using idx by (simp add: xs_local_nth abs_le_iff)
  then have "21 \<le> py_round (real (xs_local ! idx) + fst (normal_hat t idx) * s)"
    by (rule py_round_ge)
  then show ?thesis by (simp add: sample_node_def Let_def)
qed

lemma fin_mask_col_ge:
  assumes "update_fin_mask t n"
  shows "21 \<le> snd n"
proof -
  from assms obtain idx s where "idx < length xs_local" "s \<in> set s_vals"
    and "(int (fst n), int (snd n)) = sample_node t idx s"
    by (auto simp: update_fin_mask_def marked_def)
  then have "21 \<le> int (snd n)"
    using sample_col_ge[of idx s t] by (metis snd_conv)
  then show ?thesis by simp
qed

lemma phase_crest: "phase 500 140 = pi / 2"
  by (simp add: phase_def xs_local_nth x_start_def lambda_fin_def nx_def f_wave_def)

lemma phase_crest_next: "phase 500 141 = pi - phase 500 139"
  by (simp add: phase_def xs_local_nth x_start_def lambda_fin_def nx_def f_wave_def
      algebra_simps)

lemma dzdx_crest: "dzdx 500 140 = 0"
proof -
  have "sin (phase 500 141) = sin (phase 500 139)"
    by (simp only: phase_crest_next sin_pi_minus)
  then show ?thesis
    by (simp add: dzdx_def length_xs_local z_center_def)
qed

lemma normal_hat_crest: "normal_hat 500 140 = (0, - 1)"
  by (simp add: normal_hat_regular norm_t_def dzdx_crest hypot_def)

lemma z_center_crest: "z_center 500 140 = 25"
  by (simp add: z_center_def phase_crest z_root_def H_fin_def A_fin_def)

lemma first_sample: "- 9 \<in> set s_vals"
proof -
  have "0 \<in> set [0..<n_samples]" by (simp add: n_samples_val)
  then have "(\<lambda>k. - (1 / 2) * H_fin + real k * ((1 / 2) * H_fin - (- (1 / 2) * H_fin)) / real (n_samples - 1)) 0 \<in> set s_vals"
    unfolding s_vals_def set_map by (rule imageI)
  then show ?thesis by (simp add: H_fin_def)
qed

lemma sample_crest: "sample_node 500 140 (- 9) = (34, 170)"
proof -
  have "py_round (of_int 34) = 34" "py_round (of_int 170) = 170"
    by (rule py_round_of_int)+
  then show ?thesis
    by (simp add: sample_node_def Let_def normal_hat_crest z_center_crest xs_local_nth)
qed

lemma fin_mask_crest: "update_fin_mask 500 (34, 170)"
proof -
  have "140 \<in> set [0..<length xs_local]" by (simp add: length_xs_local)
  then have "(34, 170) \<in> set (concat (map (\<lambda>idx. map (sample_node 500 idx) s_vals) [0..<length xs_local]))"
    using first_sample sample_crest by (auto simp del: upt_rec_numeral intro!: bexI[of _ 140] image_eqI[of _ _ "- 9"])
  then show ?thesis
    by (simp add: update_fin_mask_def marked_def inside_def nx_def nz_def del: upt_rec_numeral)
qed

subsection \<open>The step as a whole\<close>

lemma step_f_out:
  "f_out (collide_and_stream f rho ux uz t) = stream (collide f rho ux uz)"
  by (simp add: collide_and_stream_def Let_def bounce_back_id)

lemma step_rho_out:
  "rho_out (collide_and_stream f rho ux uz t) = density (stream (collide f rho ux uz))"
  by (simp add: collide_and_stream_def Let_def bounce_back_id)

lemma step_solid_out:
  "solid_out (collide_and_stream f rho ux uz t) = combined_solid t"
  by (simp add: collide_and_stream_def Let_def)

lemma step_ux_out:
  "ux_out (collide_and_stream f rho ux uz t) n =
     (if combined_solid t n then Some 0
      else fdiv (momentum_x (stream (collide f rho ux uz)) n)
             (density (stream (collide f rho ux uz)) n))"
  by (simp add: collide_and_stream_def Let_def bounce_back_id)

lemma step_uz_out:
  "uz_out (collide_and_stream f rho ux uz t) n =
     (if combined_solid t n then Some 0
      else fdiv (momentum_z (stream (collide f rho ux uz)) n)
             (density (stream (collide f rho ux uz)) n))"
  by (simp add: collide_and_stream_def Let_def bounce_back_id)

lemma collide_equilibrium:
  "collide (equilibrium rho ux uz) rho ux uz = equilibrium rho ux uz"
  by (rule ext, rule ext) (simp add: collide_def algebra_simps)

lemma wall_solid: "combined_solid t (0, ix)"
  by (simp add: combined_solid_def solid_static_def)

lemma left_margin_fluid:
  assumes "0 < iz" "iz < nz - 1" "ix < 21"
  shows "\<not> combined_solid t (iz, ix)"
  using assms fin_mask_col_ge[of t "(iz, ix)"]
  by (auto simp: combined_solid_def solid_static_def)

lemma stream_node:
  "i < 9 \<Longrightarrow> stream f i (iz, ix) =
     f i (nat ((int iz - snd (c i)) mod int nz), nat ((int ix - fst (c i)) mod int nx))"
  by (simp add: stream_apply roll_z_def roll_x_def)

lemma stream_uniform:
  assumes "\<And>i n. f i n = g i"
  shows "stream f i n = g i"
  by (simp add: stream_apply roll_z_def roll_x_def assms)

lemma drift_pops_val: "drift_pops i n = w i * (1 + 3 * (real_of_int (fst (c i)) / 10) + (1/2) * (3 * (real_of_int (fst (c i)) / 10))\<^sup>2 - 3 / 200)"
  by (simp add: drift_pops_def equilibrium_def cu_def usq_def rho_init_def drift_ux_def uz_init_def power2_eq_square)

lemma drift_stream:
  "stream (collide drift_pops rho_init drift_ux uz_init) i n = drift_pops i n"
proof -
  have "collide drift_pops rho_init drift_ux uz_init = drift_pops"
    unfolding drift_pops_def by (rule collide_equilibrium)
  then show ?thesis
    using stream_uniform[of drift_pops "\<lambda>i. drift_pops i n" i n]
    by (simp add: drift_pops_val)
qed

text \<open>
  Claim C1. The bounce-back phase is meant to leave, at every solid node, in direction
  \<open>i\<close> the population that direction \<open>opposite i\<close> held before the phase. The loop does
  not do this. With the uniform flow \<open>drift_pops\<close> at time \<open>0\<close>, the node \<open>(0, 5)\<close> lies
  on the bottom wall; before the phase direction \<open>3\<close> holds \<open>73/900\<close> and direction \<open>1\<close>
  holds \<open>133/900\<close> there, and after the phase direction \<open>1\<close> still holds \<open>133/900\<close>.
\<close>

theorem bounce_back_no_reflection:
  "combined_solid 0 (0, 5) \<and>
   stream (collide drift_pops rho_init drift_ux uz_init) 3 (0, 5) = 73 / 900 \<and>
   stream (collide drift_pops rho_init drift_ux uz_init) 1 (0, 5) = 133 / 900 \<and>
   bounce_back (combined_solid 0) (stream (collide drift_pops rho_init drift_ux uz_init)) 1 (0, 5)
     = 133 / 900 \<and>
   f_out (collide_and_stream drift_pops rho_init drift_ux uz_init 0) 1 (0, 5) = 133 / 900"
  by (simp add: wall_solid step_f_out bounce_back_id drift_stream drift_pops_val c_simps w_simps
      power2_eq_square)

text \<open>
  Claim C2. The bounce-back loop visits all nine indices, so every pair is exchanged
  once at \<open>i\<close> and once more at \<open>opposite i\<close>; the loop as a whole is the identity on
  the population array, for every solid set and at every node, and the populations a
  step returns are those left by streaming.
\<close>

theorem bounce_back_identity:
  "bounce_back solid f = f \<and>
   f_out (collide_and_stream f rho ux uz t) = stream (collide f rho ux uz)"
  by (simp add: bounce_back_id step_f_out)

text \<open>
  Claim C6. At every node the equilibrium populations sum to the density, their first
  moments are the density times the velocity, and for unit density and zero velocity
  the nine populations are the nine weights.
\<close>

theorem equilibrium_moments:
  "sum9 (\<lambda>i. equilibrium rho ux uz i n) = rho n \<and>
   sum9 (\<lambda>i. real_of_int (fst (c i)) * equilibrium rho ux uz i n) = rho n * ux n \<and>
   sum9 (\<lambda>i. real_of_int (snd (c i)) * equilibrium rho ux uz i n) = rho n * uz n \<and>
   map (\<lambda>i. equilibrium (\<lambda>_. 1) (\<lambda>_. 0) (\<lambda>_. 0) i n) directions = map w directions"
proof -
  have "map (\<lambda>i. equilibrium (\<lambda>_. 1) (\<lambda>_. 0) (\<lambda>_. 0) i n) directions = map w directions"
    by (simp add: equilibrium_def cu_def usq_def)
  then show ?thesis
    by (simp only: equilibrium_mass equilibrium_momentum_x equilibrium_momentum_z simp_thms)
qed

lemma f_init_val: "f_init i n = w i"
  by (simp add: f_init_def equilibrium_def cu_def usq_def rho_init_def ux_init_def uz_init_def)

lemma init_stream: "stream (collide f_init rho_init ux_init uz_init) i n = w i"
proof -
  have "collide f_init rho_init ux_init uz_init = f_init"
    unfolding f_init_def by (rule collide_equilibrium)
  then show ?thesis
    using stream_uniform[of f_init w i n] by (simp add: f_init_val)
qed

text \<open>
  Claim C7. Starting from the populations of the uniform state at rest, one full step
  returns unit density and zero velocity at every node. This holds at every time \<open>t\<close>
  and whatever the solid set of the step is, in particular when it is empty.
\<close>

theorem rest_fixed_point:
  "rho_out (collide_and_stream f_init rho_init ux_init uz_init t) n = 1 \<and>
   ux_out (collide_and_stream f_init rho_init ux_init uz_init t) n = Some 0 \<and>
   uz_out (collide_and_stream f_init rho_init ux_init uz_init t) n = Some 0"
  by (simp add: step_rho_out step_ux_out step_uz_out density_def momentum_x_def momentum_z_def
      init_stream fdiv_def sum9_expand w_simps c_simps)

text \<open>
  Claim C8. At every time, a node \<open>(iz, ix)\<close> marked by the fin mask satisfies
  \<open>1 \<le> iz \<le> nz - 2\<close> and \<open>1 \<le> ix \<le> nx - 2\<close>: the mask never touches the wall rows or
  the outermost columns.
\<close>

theorem fin_mask_exclusion:
  "update_fin_mask t (iz, ix) \<Longrightarrow> 1 \<le> iz \<and> iz \<le> nz - 2 \<and> 1 \<le> ix \<and> ix \<le> nx - 2"
  using fin_mask_interior[of t "(iz, ix)"] by simp

text \<open>At \<open>t = 500\<close> the crest of the wave is at column \<open>170\<close>, and the node \<open>(34, 170)\<close> is marked.\<close>

theorem fin_mask_exclusion_witness:
  "update_fin_mask 500 (34, 170) \<and> (1::nat) \<le> 34 \<and> 34 \<le> nz - 2 \<and> (1::nat) \<le> 170 \<and> 170 \<le> nx - 2"
  using fin_mask_exclusion[OF fin_mask_crest] fin_mask_crest by simp

text \<open>
  Claim C9. The fin mask at time \<open>t + 1 / f_wave\<close> is the fin mask at time \<open>t\<close>.
\<close>

theorem fin_mask_period: "update_fin_mask (t + 1 / f_wave) = update_fin_mask t"
  by (rule update_fin_mask_periodic)

text \<open>
  Claim C10. The norm of the tangent \<open>(1, dzdx)\<close> is at least \<open>1\<close> at every time and every
  column, so the branch for a zero norm is never taken: the normal is always the
  rotated unit tangent and never the default \<open>(0, 1)\<close>.
\<close>

theorem tangent_never_degenerate:
  "1 \<le> norm_t t idx \<and> norm_t t idx \<noteq> 0 \<and>
   normal_hat t idx = (dzdx t idx / norm_t t idx, - (1 / norm_t t idx)) \<and>
   normal_hat t idx \<noteq> (0, 1)"
proof -
  have ge: "1 \<le> norm_t t idx" by (rule norm_t_ge_one)
  then have "- (1 / norm_t t idx) < 0" by simp
  then have "snd (normal_hat t idx) \<noteq> 1" by (simp only: normal_hat_regular snd_conv)
  then have ne: "normal_hat t idx \<noteq> (0, 1)" by auto
  have "norm_t t idx \<noteq> 0" using ge by simp
  with ge ne show ?thesis by (simp only: normal_hat_regular simp_thms)
qed

subsection \<open>Mass, instability and the recovered moments\<close>


lemma bump_pops_val: "bump_pops i n = w i * bump_rho n"
  by (simp add: bump_pops_def equilibrium_def cu_def usq_def ux_init_def uz_init_def)

lemma bump_collide: "collide bump_pops bump_rho ux_init uz_init = bump_pops"
  unfolding bump_pops_def by (rule collide_equilibrium)

lemma bump_density: "density bump_pops n = bump_rho n"
  by (simp add: density_def bump_pops_def equilibrium_mass)

lemma bump_streamed:
  "density (stream bump_pops) (5, 6) = 10 / 9"
  by (simp add: density_def sum9_expand stream_node c_simps nz_def nx_def bump_pops_val
      w_simps bump_rho_def)

text \<open>
  The state \<open>bump_pops\<close>, \<open>bump_rho\<close> at rest has the density and the velocity recovered
  from its populations. Collision leaves it as it is, and streaming carries the heavier
  east-moving population of node \<open>(5, 5)\<close> to node \<open>(5, 6)\<close>, whose populations then sum to
  \<open>10/9\<close> instead of \<open>1\<close>.
\<close>

theorem node_mass_changes:
  "density bump_pops (5, 6) = 1 \<and>
   density (stream (collide bump_pops bump_rho ux_init uz_init)) (5, 6) = 10 / 9"
  by (simp add: bump_collide bump_streamed bump_density bump_rho_def)

text \<open>
  Claim C5, amended. For a state whose density field is the one recovered from its
  populations, collision leaves the sum of the nine populations unchanged at every
  node of the grid, and collision followed by streaming leaves the total mass on the
  grid unchanged. Neither phase reads the solid set. The sum at a single node is not
  preserved by streaming.
\<close>

theorem mass_conservation:
  assumes "\<And>m. in_grid m \<Longrightarrow> rho m = density f m" and "in_grid n"
  shows "density (collide f rho ux uz) n = density f n \<and>
         total_mass (stream (collide f rho ux uz)) = total_mass f"
proof -
  have node: "density (collide f rho ux uz) m = density f m" if "in_grid m" for m
    using assms(1)[OF that] by (simp add: density_collide algebra_simps)
  have "total_mass (stream (collide f rho ux uz)) = total_mass (collide f rho ux uz)"
    by (rule total_mass_stream)
  also have "\<dots> = total_mass f"
    by (rule total_mass_cong) (rule node)
  finally show ?thesis using node[OF assms(2)] by simp
qed

text \<open>The theorem at the state with one node of double density.\<close>

theorem mass_conservation_witness:
  "in_grid (5, 6) \<and>
   density (collide bump_pops bump_rho ux_init uz_init) (5, 6) = density bump_pops (5, 6) \<and>
   total_mass (stream (collide bump_pops bump_rho ux_init uz_init)) = total_mass bump_pops"
proof -
  have g: "in_grid (5, 6)" by (simp add: in_grid_def nz_def nx_def)
  have h: "bump_rho m = density bump_pops m" for m by (simp add: bump_density)
  show ?thesis
    using mass_conservation[of bump_rho bump_pops "(5, 6)" ux_init uz_init, OF h g] g by simp
qed

lemma zero_stream: "stream (collide zero_pops zero_rho ux uz) i n = 0"
proof -
  have "collide zero_pops zero_rho ux uz i n = 0" for i n
    by (simp add: collide_def zero_pops_def zero_rho_def equilibrium_def)
  then show ?thesis
    by (rule stream_uniform)
qed

lemma neg_stream: "stream (collide neg_pops neg_rho ux_init uz_init) i n = - w i"
proof -
  have val: "neg_pops i n = - w i" for i n
    by (simp add: neg_pops_def equilibrium_def cu_def usq_def neg_rho_def ux_init_def
        uz_init_def)
  have "collide neg_pops neg_rho ux_init uz_init = neg_pops"
    unfolding neg_pops_def by (rule collide_equilibrium)
  then show ?thesis
    using stream_uniform[of neg_pops "\<lambda>i. - w i" i n] by (simp add: val)
qed

text \<open>
  An empty lattice at time \<open>0\<close>: what the step returns at the fluid node \<open>(60, 5)\<close> is
  density \<open>0\<close> and non-finite velocities. A lattice of negative populations at time \<open>0\<close>:
  what the step returns at the same node is a negative density.
\<close>

theorem zero_density_returned:
  "\<not> solid_out (collide_and_stream zero_pops zero_rho ux_init uz_init 0) (60, 5) \<and>
   rho_out (collide_and_stream zero_pops zero_rho ux_init uz_init 0) (60, 5) = 0 \<and>
   ux_out (collide_and_stream zero_pops zero_rho ux_init uz_init 0) (60, 5) = None \<and>
   uz_out (collide_and_stream zero_pops zero_rho ux_init uz_init 0) (60, 5) = None \<and>
   \<not> solid_out (collide_and_stream neg_pops neg_rho ux_init uz_init 0) (60, 5) \<and>
   rho_out (collide_and_stream neg_pops neg_rho ux_init uz_init 0) (60, 5) < 0"
proof -
  have "\<not> combined_solid 0 (60, 5)"
    by (rule left_margin_fluid) (simp_all add: nz_def)
  then show ?thesis
    by (simp add: step_solid_out step_rho_out step_ux_out step_uz_out density_def
        zero_stream neg_stream sum9_expand w_simps fdiv_def)
qed

text \<open>
  Claim C3, amended. Over exact arithmetic, with finite inputs: for every state, every
  time and every node, the density that the step returns is the sum of the nine
  streamed populations, whatever the sign of that sum; and at a node that is not solid
  and whose returned density is zero, both velocities that the step returns are
  non-finite.
\<close>

theorem step_returns_unchecked:
  "rho_out (collide_and_stream f rho ux uz t) n = density (stream (collide f rho ux uz)) n \<and>
   (\<not> solid_out (collide_and_stream f rho ux uz t) n \<and>
      rho_out (collide_and_stream f rho ux uz t) n = 0 \<longrightarrow>
    ux_out (collide_and_stream f rho ux uz t) n = None \<and>
    uz_out (collide_and_stream f rho ux uz t) n = None)"
  by (simp add: step_solid_out step_rho_out step_ux_out step_uz_out fdiv_def)

text \<open>The theorem at an empty lattice, time \<open>7\<close> and the fluid node \<open>(3, 3)\<close>.\<close>

theorem step_returns_unchecked_witness:
  "\<not> solid_out (collide_and_stream zero_pops zero_rho ux_init uz_init 7) (3, 3) \<and>
   rho_out (collide_and_stream zero_pops zero_rho ux_init uz_init 7) (3, 3) = 0 \<and>
   ux_out (collide_and_stream zero_pops zero_rho ux_init uz_init 7) (3, 3) = None \<and>
   uz_out (collide_and_stream zero_pops zero_rho ux_init uz_init 7) (3, 3) = None"
proof -
  have "\<not> combined_solid 7 (3, 3)"
    by (rule left_margin_fluid) (simp_all add: nz_def)
  then have a: "\<not> solid_out (collide_and_stream zero_pops zero_rho ux_init uz_init 7) (3, 3)"
    by (simp add: step_solid_out)
  have b: "rho_out (collide_and_stream zero_pops zero_rho ux_init uz_init 7) (3, 3) = 0"
    by (simp add: step_rho_out density_def zero_stream sum9_expand)
  show ?thesis
    using step_returns_unchecked[of zero_pops zero_rho ux_init uz_init 7 "(3, 3)"] a b
    by simp
qed

text \<open>
  The uniform flow at time \<open>0\<close>: at the wall node \<open>(0, 5)\<close> the step returns density \<open>1\<close> and
  \<open>x\<close>-velocity \<open>0\<close>, while the \<open>x\<close>-momentum of the returned populations is \<open>1/10\<close>. On an
  empty lattice the velocity returned at the fluid node \<open>(60, 5)\<close> is not a number at all.
\<close>

theorem solid_node_momentum:
  "solid_out (collide_and_stream drift_pops rho_init drift_ux uz_init 0) (0, 5) \<and>
   rho_out (collide_and_stream drift_pops rho_init drift_ux uz_init 0) (0, 5) = 1 \<and>
   ux_out (collide_and_stream drift_pops rho_init drift_ux uz_init 0) (0, 5) = Some 0 \<and>
   momentum_x (f_out (collide_and_stream drift_pops rho_init drift_ux uz_init 0)) (0, 5) = 1 / 10 \<and>
   \<not> solid_out (collide_and_stream zero_pops zero_rho ux_init uz_init 0) (60, 5) \<and>
   ux_out (collide_and_stream zero_pops zero_rho ux_init uz_init 0) (60, 5) = None"
proof -
  have "\<not> combined_solid 0 (60, 5)"
    by (rule left_margin_fluid) (simp_all add: nz_def)
  then show ?thesis
    by (simp add: step_solid_out step_rho_out step_ux_out step_f_out wall_solid
        density_def momentum_x_def drift_stream drift_pops_val zero_stream sum9_expand
        c_simps w_simps fdiv_def power2_eq_square)
qed

text \<open>
  Claim C4, amended. After every step the returned density is the sum of the nine
  returned populations at every node; at every solid node both returned velocities are
  \<open>0\<close>; and at every node that is not solid and has a density other than zero, the
  velocities are finite and the density times the velocity is the first moment of the
  returned populations.
\<close>

theorem recovery_moments:
  "rho_out (collide_and_stream f rho ux uz t) n
     = sum9 (\<lambda>i. f_out (collide_and_stream f rho ux uz t) i n) \<and>
   (solid_out (collide_and_stream f rho ux uz t) n \<longrightarrow>
      ux_out (collide_and_stream f rho ux uz t) n = Some 0 \<and>
      uz_out (collide_and_stream f rho ux uz t) n = Some 0) \<and>
   (\<not> solid_out (collide_and_stream f rho ux uz t) n \<and>
      rho_out (collide_and_stream f rho ux uz t) n \<noteq> 0 \<longrightarrow>
      (\<exists>u v. ux_out (collide_and_stream f rho ux uz t) n = Some u \<and>
             uz_out (collide_and_stream f rho ux uz t) n = Some v \<and>
             rho_out (collide_and_stream f rho ux uz t) n * u
               = sum9 (\<lambda>i. real_of_int (fst (c i)) * f_out (collide_and_stream f rho ux uz t) i n) \<and>
             rho_out (collide_and_stream f rho ux uz t) n * v
               = sum9 (\<lambda>i. real_of_int (snd (c i)) * f_out (collide_and_stream f rho ux uz t) i n)))"
  by (simp add: step_solid_out step_rho_out step_ux_out step_uz_out step_f_out fdiv_def
      density_def momentum_x_def momentum_z_def)

text \<open>The theorem at the uniform flow, on the wall node \<open>(0, 5)\<close> and the fluid node \<open>(60, 5)\<close>.\<close>

theorem recovery_moments_witness:
  "solid_out (collide_and_stream drift_pops rho_init drift_ux uz_init 0) (0, 5) \<and>
   ux_out (collide_and_stream drift_pops rho_init drift_ux uz_init 0) (0, 5) = Some 0 \<and>
   uz_out (collide_and_stream drift_pops rho_init drift_ux uz_init 0) (0, 5) = Some 0 \<and>
   \<not> solid_out (collide_and_stream drift_pops rho_init drift_ux uz_init 0) (60, 5) \<and>
   rho_out (collide_and_stream drift_pops rho_init drift_ux uz_init 0) (60, 5) = 1 \<and>
   ux_out (collide_and_stream drift_pops rho_init drift_ux uz_init 0) (60, 5) = Some (1 / 10) \<and>
   uz_out (collide_and_stream drift_pops rho_init drift_ux uz_init 0) (60, 5) = Some 0"
proof -
  have fluid: "\<not> combined_solid 0 (60, 5)"
    by (rule left_margin_fluid) (simp_all add: nz_def)
  have a: "solid_out (collide_and_stream drift_pops rho_init drift_ux uz_init 0) (0, 5)"
    by (simp add: step_solid_out wall_solid)
  have b: "\<not> solid_out (collide_and_stream drift_pops rho_init drift_ux uz_init 0) (60, 5)"
    using fluid by (simp add: step_solid_out)
  have c: "rho_out (collide_and_stream drift_pops rho_init drift_ux uz_init 0) (60, 5) = 1"
    by (simp add: step_rho_out density_def drift_stream drift_pops_val sum9_expand
        c_simps w_simps power2_eq_square)
  have mx: "sum9 (\<lambda>i. real_of_int (fst (c i)) *
      f_out (collide_and_stream drift_pops rho_init drift_ux uz_init 0) i (60, 5)) = 1 / 10"
    by (simp add: step_f_out drift_stream drift_pops_val sum9_expand
        c_simps w_simps power2_eq_square)
  have mz: "sum9 (\<lambda>i. real_of_int (snd (c i)) *
      f_out (collide_and_stream drift_pops rho_init drift_ux uz_init 0) i (60, 5)) = 0"
    by (simp add: step_f_out drift_stream drift_pops_val sum9_expand
        c_simps w_simps power2_eq_square)
  show ?thesis
    using recovery_moments[of drift_pops rho_init drift_ux uz_init 0 "(0, 5)"]
      recovery_moments[of drift_pops rho_init drift_ux uz_init 0 "(60, 5)"] a b c mx mz
    by auto
qed

end
